theory Spec2Isabelle
  imports Complex_Main "HOL-Library.Char_ord" "HOL-Library.List_Lexorder"
begin

section \<open>Numbers\<close>

text \<open>
  The program computes with the double-precision numbers of numpy and pandas. They are
  modelled here by exact rationals extended with the two infinities and the
  not-a-number value, so that a division by zero, which pandas evaluates without
  raising, stays a branch of the model. What the model leaves out is the rounding error
  of each operation, overflow of a finite result, and the sign of zero (zero is taken as
  positive zero). Every statement below is a statement about this exact arithmetic.
\<close>

datatype fl = Fin rat | PInf | NInf | NaN

fun is_nan :: "fl \<Rightarrow> bool" where
  "is_nan NaN = True"
| "is_nan _ = False"

fun is_fin :: "fl \<Rightarrow> bool" where
  "is_fin (Fin _) = True"
| "is_fin _ = False"

fun fl_neg :: "fl \<Rightarrow> fl" where
  "fl_neg (Fin a) = Fin (- a)"
| "fl_neg PInf = NInf"
| "fl_neg NInf = PInf"
| "fl_neg NaN = NaN"

fun fl_add :: "fl \<Rightarrow> fl \<Rightarrow> fl" where
  "fl_add (Fin a) (Fin b) = Fin (a + b)"
| "fl_add NaN _ = NaN"
| "fl_add _ NaN = NaN"
| "fl_add PInf NInf = NaN"
| "fl_add NInf PInf = NaN"
| "fl_add PInf _ = PInf"
| "fl_add _ PInf = PInf"
| "fl_add NInf _ = NInf"
| "fl_add _ NInf = NInf"

definition fl_sub :: "fl \<Rightarrow> fl \<Rightarrow> fl" where
  "fl_sub x y = fl_add x (fl_neg y)"

fun fl_mul :: "fl \<Rightarrow> fl \<Rightarrow> fl" where
  "fl_mul (Fin a) (Fin b) = Fin (a * b)"
| "fl_mul NaN _ = NaN"
| "fl_mul _ NaN = NaN"
| "fl_mul (Fin a) y = (if a = 0 then NaN else if 0 < a then y else fl_neg y)"
| "fl_mul x (Fin b) = (if b = 0 then NaN else if 0 < b then x else fl_neg x)"
| "fl_mul PInf y = y"
| "fl_mul NInf y = fl_neg y"

fun fl_div :: "fl \<Rightarrow> fl \<Rightarrow> fl" where
  "fl_div (Fin a) (Fin b) =
     (if b = 0 then (if a = 0 then NaN else if 0 < a then PInf else NInf)
      else Fin (a / b))"
| "fl_div NaN _ = NaN"
| "fl_div _ NaN = NaN"
| "fl_div (Fin a) _ = Fin 0"
| "fl_div x (Fin b) = (if 0 \<le> b then x else fl_neg x)"
| "fl_div _ _ = NaN"

text \<open>The comparisons \<open><\<close> and \<open>==\<close>; both are false when an operand is not a number.\<close>

fun fl_less :: "fl \<Rightarrow> fl \<Rightarrow> bool" where
  "fl_less (Fin a) (Fin b) = (a < b)"
| "fl_less NaN _ = False"
| "fl_less _ NaN = False"
| "fl_less _ NInf = False"
| "fl_less PInf _ = False"
| "fl_less _ _ = True"

fun fl_eq :: "fl \<Rightarrow> fl \<Rightarrow> bool" where
  "fl_eq NaN _ = False"
| "fl_eq _ NaN = False"
| "fl_eq x y = (x = y)"

text \<open>
  \<open>round(x, 2)\<close> on a numpy double scales by 100, rounds to the nearest integer with
  ties to the even one, and scales back.
\<close>

definition rint :: "rat \<Rightarrow> int" where
  "rint x =
     (let f = \<lfloor>x\<rfloor>; d = x - of_int f
      in if d < 1 / 2 then f else if 1 / 2 < d then f + 1
         else if even f then f else f + 1)"

fun round2 :: "fl \<Rightarrow> fl" where
  "round2 (Fin x) = Fin (of_int (rint (x * 100)) / 100)"
| "round2 x = x"

text \<open>
  \<open>int(x)\<close> truncates toward zero; it raises ValueError on not-a-number and
  OverflowError on an infinity.
\<close>

datatype py_error =
    KeyError string
  | InvalidProfile string
  | AmbiguousTruth
  | NanToInt
  | InfToInt

definition trunc :: "rat \<Rightarrow> int" where
  "trunc x = (if 0 \<le> x then \<lfloor>x\<rfloor> else \<lceil>x\<rceil>)"

fun to_int :: "fl \<Rightarrow> py_error + int" where
  "to_int (Fin x) = Inr (trunc x)"
| "to_int NaN = Inl NanToInt"
| "to_int _ = Inl InfToInt"

section \<open>Data\<close>

text \<open>
  A row of the market-data frame, and the frame itself, indexed by symbol. The provider
  builds the frame from the columns of one download, so its index has no duplicates and
  a map models it.
\<close>

record stats =
  volatility :: fl
  average_return :: fl
  price :: fl

type_synonym market_data = "string \<rightharpoonup> stats"

record position =
  symbol :: string
  quantity :: int

datatype action = Sell | Buy

record operation = position +
  action :: action
  investment :: fl

record input_data =
  investment_amount :: rat
  risk_profile :: string
  available_assets :: "string list"
  current_portfolio :: "position list"

text \<open>
  A pandas Series with its index: the labels in order, each with its value. A label
  may occur more than once (a symbol listed twice in \<open>available_assets\<close>).
\<close>

type_synonym 'a series = "(string \<times> 'a) list"

section \<open>The weight calculator\<close>

text \<open>
  \<open>Series.quantile(0.9)\<close> with the default linear interpolation: the values that are
  not NaN are sorted, the virtual index is \<open>0.9 * (n - 1)\<close>, and the result is
  interpolated between its two neighbours, from the lower one when the fraction is below
  one half and from the upper one otherwise. The quantile of no values is NaN.
\<close>

fun fl_insort :: "fl \<Rightarrow> fl list \<Rightarrow> fl list" where
  "fl_insort x [] = [x]"
| "fl_insort x (y # ys) = (if fl_less y x then y # fl_insort x ys else x # y # ys)"

definition fl_sort :: "fl list \<Rightarrow> fl list" where
  "fl_sort xs = foldr fl_insort xs []"

definition lerp :: "fl \<Rightarrow> fl \<Rightarrow> rat \<Rightarrow> fl" where
  "lerp a b t =
     (let diff_b_a = fl_sub b a
      in if 1 / 2 \<le> t then fl_sub b (fl_mul diff_b_a (Fin (1 - t)))
         else fl_add a (fl_mul diff_b_a (Fin t)))"

definition quantile09 :: "fl list \<Rightarrow> fl" where
  "quantile09 vs =
     (let xs = fl_sort (filter (\<lambda>v. \<not> is_nan v) vs); n = length xs
      in if n = 0 then NaN
         else let lo = (9 * (n - 1)) div 10;
                  hi = min (lo + 1) (n - 1);
                  gamma = of_nat ((9 * (n - 1)) mod 10) / 10
              in lerp (xs ! lo) (xs ! hi) gamma)"

text \<open>The weight of one row before the exclusion, by profile name; None for an unknown name.\<close>

definition raw_weight :: "string \<Rightarrow> (stats \<Rightarrow> fl) option" where
  "raw_weight p =
     (if p = ''conservative'' then Some (\<lambda>r. fl_div (Fin 1) (volatility r))
      else if p = ''moderate'' then Some (\<lambda>r. fl_div (average_return r) (volatility r))
      else if p = ''aggressive'' then Some (\<lambda>r. average_return r)
      else if p = ''balanced'' then
        Some (\<lambda>r. fl_div (fl_add (average_return r) (fl_div (Fin 1) (volatility r))) (Fin 2))
      else if p = ''growth'' then
        Some (\<lambda>r. fl_sub (fl_mul (average_return r) (Fin 2)) (volatility r))
      else None)"

text \<open>
  \<open>weights[data["Volatility"] > data["Volatility"].quantile(0.9)] = 0\<close>: the mask is
  computed row by row against the quantile of this call's own table.
\<close>

definition too_volatile :: "stats series \<Rightarrow> stats \<Rightarrow> bool" where
  "too_volatile data r = fl_less (quantile09 (map (\<lambda>(s, r). volatility r) data)) (volatility r)"

definition calculate_weights :: "stats series \<Rightarrow> string \<Rightarrow> py_error + fl series" where
  "calculate_weights data p =
     (case raw_weight p of
        None \<Rightarrow> Inl (InvalidProfile p)
      | Some f \<Rightarrow>
          Inr (map (\<lambda>(s, r). (s, if too_volatile data r then Fin 0 else f r)) data))"

section \<open>The allocation pass\<close>

text \<open>
  \<open>market_data.loc[symbols]\<close> raises KeyError when a label is not in the index
  (pandas 1.0 and later); \<open>dropna()\<close> then removes every row with a NaN entry.
\<close>

fun loc_rows :: "market_data \<Rightarrow> string list \<Rightarrow> py_error + stats series" where
  "loc_rows md [] = Inr []"
| "loc_rows md (s # ss) =
     (case md s of
        None \<Rightarrow> Inl (KeyError s)
      | Some r \<Rightarrow> (case loc_rows md ss of Inl e \<Rightarrow> Inl e | Inr rows \<Rightarrow> Inr ((s, r) # rows)))"

definition dropna :: "stats series \<Rightarrow> stats series" where
  "dropna rows =
     filter (\<lambda>(s, r). \<not> is_nan (volatility r) \<and> \<not> is_nan (average_return r) \<and> \<not> is_nan (price r))
       rows"

text \<open>\<open>Series.sum()\<close> skips NaN entries and is 0 for no entries.\<close>

definition series_sum :: "fl list \<Rightarrow> fl" where
  "series_sum ws = foldl fl_add (Fin 0) (filter (\<lambda>w. \<not> is_nan w) ws)"

definition normalize :: "fl series \<Rightarrow> fl series" where
  "normalize ws =
     (let weights_sum = series_sum (map snd ws) in map (\<lambda>(s, w). (s, fl_div w weights_sum)) ws)"

text \<open>
  \<open>weights[symbol]\<close> and \<open>data.at[symbol, "Price"]\<close>: KeyError for a label that is
  not in the index, the value for a label that occurs once. For a label that occurs
  more than once pandas returns a Series, and the truth test that follows in both loops
  (\<open>elif ... and weights[symbol] == 0\<close>, \<open>if price > 0\<close>) raises ValueError; nothing
  happens in between, so the lookup itself returns that error here.
\<close>

definition series_get :: "'a series \<Rightarrow> string \<Rightarrow> py_error + 'a" where
  "series_get ws s =
     (case filter (\<lambda>(k, v). k = s) ws of
        [] \<Rightarrow> Inl (KeyError s)
      | [(k, v)] \<Rightarrow> Inr v
      | _ \<Rightarrow> Inl AmbiguousTruth)"

text \<open>Lines 66 to 72: which positions are to be sold.\<close>

definition is_unsuitable :: "string list \<Rightarrow> market_data \<Rightarrow> fl series \<Rightarrow> position \<Rightarrow> py_error + bool" where
  "is_unsuitable symbols md weights position =
     (if symbol position \<notin> set symbols then Inr True
      else if md (symbol position) \<noteq> None then
        (case series_get weights (symbol position) of
           Inl e \<Rightarrow> Inl e
         | Inr w \<Rightarrow> Inr (fl_eq w (Fin 0)))
      else Inr False)"

fun unsuitable_positions ::
  "string list \<Rightarrow> market_data \<Rightarrow> fl series \<Rightarrow> position list \<Rightarrow> py_error + position list" where
  "unsuitable_positions symbols md weights [] = Inr []"
| "unsuitable_positions symbols md weights (p # ps) =
     (case is_unsuitable symbols md weights p of
        Inl e \<Rightarrow> Inl e
      | Inr b \<Rightarrow>
          (case unsuitable_positions symbols md weights ps of
             Inl e \<Rightarrow> Inl e
           | Inr us \<Rightarrow> Inr (if b then p # us else us)))"

text \<open>
  Lines 75 to 92: the sell loop. The single-symbol lookup of the provider is a parameter:
  it gives the latest close, or None when the lookup raises.
\<close>

definition resolve_price :: "market_data \<Rightarrow> (string \<Rightarrow> fl option) \<Rightarrow> string \<Rightarrow> fl" where
  "resolve_price md fallback s =
     (case md s of
        Some r \<Rightarrow> price r
      | None \<Rightarrow> (case fallback s of Some p \<Rightarrow> p | None \<Rightarrow> Fin 0))"

definition sell_operation :: "market_data \<Rightarrow> (string \<Rightarrow> fl option) \<Rightarrow> position \<Rightarrow> operation" where
  "sell_operation md fallback position =
     \<lparr>symbol = symbol position, quantity = quantity position, action = Sell,
      investment =
        round2 (fl_mul (Fin (of_int (quantity position))) (resolve_price md fallback (symbol position)))\<rparr>"

fun sell_loop ::
  "market_data \<Rightarrow> (string \<Rightarrow> fl option) \<Rightarrow> position list \<Rightarrow> operation list \<times> fl
     \<Rightarrow> operation list \<times> fl" where
  "sell_loop md fallback [] acc = acc"
| "sell_loop md fallback (p # ps) (sell_operations, cash_from_sales) =
     (let op = sell_operation md fallback p
      in sell_loop md fallback ps (sell_operations @ [op], fl_add cash_from_sales (investment op)))"

text \<open>Lines 98 to 111: the buy loop, over every symbol of \<open>available_assets\<close>.\<close>

definition buy_quantity :: "fl \<Rightarrow> fl \<Rightarrow> py_error + int" where
  "buy_quantity allocation p =
     (if fl_less (Fin 0) p then to_int (fl_div allocation p) else Inr 0)"

definition buy_operation :: "fl \<Rightarrow> fl series \<Rightarrow> stats series \<Rightarrow> string \<Rightarrow> py_error + operation" where
  "buy_operation total_cash_available weights data s =
     (case series_get weights s of
        Inl e \<Rightarrow> Inl e
      | Inr w \<Rightarrow>
          (case series_get data s of
             Inl e \<Rightarrow> Inl e
           | Inr r \<Rightarrow>
               (case buy_quantity (fl_mul total_cash_available w) (price r) of
                  Inl e \<Rightarrow> Inl e
                | Inr q \<Rightarrow>
                    Inr \<lparr>symbol = s, quantity = q, action = Buy,
                         investment = round2 (fl_mul (Fin (of_int q)) (price r))\<rparr>)))"

fun buy_loop ::
  "fl \<Rightarrow> fl series \<Rightarrow> stats series \<Rightarrow> string list \<Rightarrow> operation list \<times> fl
     \<Rightarrow> py_error + operation list \<times> fl" where
  "buy_loop total_cash_available weights data [] acc = Inr acc"
| "buy_loop total_cash_available weights data (s # ss) (operations, cash_spent) =
     (case buy_operation total_cash_available weights data s of
        Inl e \<Rightarrow> Inl e
      | Inr op \<Rightarrow>
          buy_loop total_cash_available weights data ss
            (operations @ [op], fl_add cash_spent (investment op)))"

text \<open>
  Lines 117 to 124: the merge. \<open>set_index("symbol")\<close> on the frame of an empty list
  raises KeyError, since that frame has no column. The index of the merged frame is the
  union of the two indexes, sorted unless they are equal. The sum of the two quantity
  columns is aligned on the labels: a label with no buy row gets NaN, a label with no
  current position counts as 0. Rows that are not strictly positive, NaN among them, are
  dropped. The sell operations are not an input of this step. The model is for a
  portfolio that lists each symbol once.
\<close>

definition merged_quantity :: "position list \<Rightarrow> operation list \<Rightarrow> string \<Rightarrow> int option" where
  "merged_quantity current operations s =
     (case map_of (map (\<lambda>op. (symbol op, quantity op)) operations) s of
        None \<Rightarrow> None
      | Some b \<Rightarrow>
          Some ((case map_of (map (\<lambda>p. (symbol p, quantity p)) current) s of
                   None \<Rightarrow> 0 | Some q \<Rightarrow> q) + b))"

definition union_index :: "string list \<Rightarrow> string list \<Rightarrow> string list" where
  "union_index xs ys = (if xs = ys then xs else sort (remdups (xs @ ys)))"

definition merge_portfolio :: "position list \<Rightarrow> operation list \<Rightarrow> py_error + position list" where
  "merge_portfolio current operations =
     (if current = [] \<or> operations = [] then Inl (KeyError ''symbol'')
      else Inr (List.map_filter
                  (\<lambda>s. case merged_quantity current operations s of
                          None \<Rightarrow> None
                        | Some q \<Rightarrow> if 0 < q then Some \<lparr>symbol = s, quantity = q\<rparr> else None)
                  (union_index (map symbol current) (map symbol operations))))"

text \<open>
  The result, without its statistics block (lines 126 to 136 and the last entry of the
  returned dictionary): that block reads only the final portfolio and the market data,
  changes nothing above it and does not raise.
\<close>

record allocation_result =
  initial_portfolio :: "position list"
  sell_operations :: "operation list"
  buy_operations :: "operation list"
  final_portfolio :: "position list"
  cash_remaining :: fl

text \<open>Lines 58 to 59 and lines 62 to 63.\<close>

definition selected_data :: "market_data \<Rightarrow> string list \<Rightarrow> py_error + stats series" where
  "selected_data md symbols =
     (case loc_rows md symbols of Inl e \<Rightarrow> Inl e | Inr rows \<Rightarrow> Inr (dropna rows))"

definition normalized_weights :: "stats series \<Rightarrow> string \<Rightarrow> py_error + fl series" where
  "normalized_weights data p =
     (case calculate_weights data p of Inl e \<Rightarrow> Inl e | Inr raw \<Rightarrow> Inr (normalize raw))"

definition optimize_portfolio ::
  "input_data \<Rightarrow> market_data \<Rightarrow> (string \<Rightarrow> fl option) \<Rightarrow> py_error + allocation_result" where
  "optimize_portfolio inp md fallback =
     (let symbols = available_assets inp in
      case selected_data md symbols of
        Inl e \<Rightarrow> Inl e
      | Inr data \<Rightarrow>
     (case normalized_weights data (risk_profile inp) of
        Inl e \<Rightarrow> Inl e
      | Inr weights \<Rightarrow>
     (case unsuitable_positions symbols md weights (current_portfolio inp) of
        Inl e \<Rightarrow> Inl e
      | Inr unsuitable \<Rightarrow>
     (let (sells, cash_from_sales) = sell_loop md fallback unsuitable ([], Fin 0);
          total_cash_available = fl_add (Fin (investment_amount inp)) cash_from_sales in
      case buy_loop total_cash_available weights data symbols ([], Fin 0) of
        Inl e \<Rightarrow> Inl e
      | Inr (operations, cash_spent) \<Rightarrow>
     (case merge_portfolio (current_portfolio inp) operations of
        Inl e \<Rightarrow> Inl e
      | Inr final \<Rightarrow>
          Inr \<lparr>initial_portfolio = current_portfolio inp,
               sell_operations = sells,
               buy_operations = operations,
               final_portfolio = final,
               cash_remaining = round2 (fl_sub total_cash_available cash_spent)\<rparr>)))))"

section \<open>Example inputs\<close>

text \<open>
  The scenario of the specification: symbols A and B, budget 1000, profile
  conservative. It is given with its empty portfolio and with a holding of 5 B.
\<close>

definition scenario_market :: market_data where
  "scenario_market =
     [''A'' \<mapsto> \<lparr>volatility = Fin (1 / 10), average_return = Fin (8 / 100), price = Fin 100\<rparr>,
      ''B'' \<mapsto> \<lparr>volatility = Fin (1 / 2), average_return = Fin (2 / 10), price = Fin 50\<rparr>]"

definition scenario_data :: "stats series" where
  "scenario_data =
     [(''A'', \<lparr>volatility = Fin (1 / 10), average_return = Fin (8 / 100), price = Fin 100\<rparr>),
      (''B'', \<lparr>volatility = Fin (1 / 2), average_return = Fin (2 / 10), price = Fin 50\<rparr>)]"

definition scenario_input :: input_data where
  "scenario_input =
     \<lparr>investment_amount = 1000, risk_profile = ''conservative'',
      available_assets = [''A'', ''B''], current_portfolio = []\<rparr>"

definition no_fallback :: "string \<Rightarrow> fl option" where
  "no_fallback s = None"

text \<open>The same request with a holding of 5 B, and with a profile name that is not known.\<close>

definition held_input :: input_data where
  "held_input =
     \<lparr>investment_amount = 1000, risk_profile = ''conservative'',
      available_assets = [''A'', ''B''], current_portfolio = [\<lparr>symbol = ''B'', quantity = 5\<rparr>]\<rparr>"


text \<open>Market data in which B has no row, and in which the row of B holds no numbers.\<close>

definition one_row_market :: market_data where
  "one_row_market =
     [''A'' \<mapsto> \<lparr>volatility = Fin (1 / 10), average_return = Fin (8 / 100), price = Fin 100\<rparr>]"

definition nan_row_market :: market_data where
  "nan_row_market =
     [''A'' \<mapsto> \<lparr>volatility = Fin (1 / 10), average_return = Fin (8 / 100), price = Fin 100\<rparr>,
      ''B'' \<mapsto> \<lparr>volatility = NaN, average_return = NaN, price = NaN\<rparr>]"

text \<open>
  A single-symbol lookup that knows only Z, and a table whose two returns cancel.
\<close>

definition z_fallback :: "string \<Rightarrow> fl option" where
  "z_fallback s = (if s = ''Z'' then Some (Fin 7) else None)"

definition opposite_returns :: "stats series" where
  "opposite_returns =
     [(''A'', \<lparr>volatility = Fin (1 / 4), average_return = Fin (1 / 2), price = Fin 100\<rparr>),
      (''B'', \<lparr>volatility = Fin (1 / 4), average_return = Fin (- (1 / 2)), price = Fin 50\<rparr>)]"

text \<open>
  A request under the aggressive profile with one negative return, and a request whose
  prices are not whole cents.
\<close>

definition short_market :: market_data where
  "short_market =
     [''A'' \<mapsto> \<lparr>volatility = Fin (1 / 2), average_return = Fin (3 / 4), price = Fin 100\<rparr>,
      ''B'' \<mapsto> \<lparr>volatility = Fin (1 / 2), average_return = Fin (- (1 / 4)), price = Fin 30\<rparr>]"


definition short_input :: input_data where
  "short_input =
     \<lparr>investment_amount = 1000, risk_profile = ''aggressive'',
      available_assets = [''A'', ''B''], current_portfolio = [\<lparr>symbol = ''A'', quantity = 1\<rparr>]\<rparr>"

definition subcent_row :: stats where
  "subcent_row = \<lparr>volatility = Fin (1 / 2), average_return = Fin (1 / 10), price = Fin (100 + 1 / 128)\<rparr>"

definition subcent_market :: market_data where
  "subcent_market =
     [''A'' \<mapsto> subcent_row, ''B'' \<mapsto> subcent_row, ''C'' \<mapsto> subcent_row, ''D'' \<mapsto> subcent_row]"

definition subcent_input :: input_data where
  "subcent_input =
     \<lparr>investment_amount = 400 + 1 / 32, risk_profile = ''conservative'',
      available_assets = [''A'', ''B'', ''C'', ''D''],
      current_portfolio = [\<lparr>symbol = ''A'', quantity = 1\<rparr>]\<rparr>"

text \<open>The result of the scenario with the holding of 5 B, and weights that put all on A.\<close>

definition held_result :: allocation_result where
  "held_result =
     \<lparr>initial_portfolio = [\<lparr>symbol = ''B'', quantity = 5\<rparr>],
      sell_operations = [\<lparr>symbol = ''B'', quantity = 5, action = Sell, investment = Fin 250\<rparr>],
      buy_operations =
        [\<lparr>symbol = ''A'', quantity = 12, action = Buy, investment = Fin 1200\<rparr>,
         \<lparr>symbol = ''B'', quantity = 0, action = Buy, investment = Fin 0\<rparr>],
      final_portfolio = [\<lparr>symbol = ''A'', quantity = 12\<rparr>, \<lparr>symbol = ''B'', quantity = 5\<rparr>],
      cash_remaining = Fin 50\<rparr>"


text \<open>
  The scenario with a holding of 0 B, and with holdings of 5 B and of 3 Z, a symbol
  outside the available assets; the result of the latter.
\<close>

definition zero_holding_input :: input_data where
  "zero_holding_input =
     \<lparr>investment_amount = 1000, risk_profile = ''conservative'',
      available_assets = [''A'', ''B''], current_portfolio = [\<lparr>symbol = ''B'', quantity = 0\<rparr>]\<rparr>"

definition outside_input :: input_data where
  "outside_input =
     \<lparr>investment_amount = 1000, risk_profile = ''conservative'',
      available_assets = [''A'', ''B''],
      current_portfolio = [\<lparr>symbol = ''B'', quantity = 5\<rparr>, \<lparr>symbol = ''Z'', quantity = 3\<rparr>]\<rparr>"

definition outside_result :: allocation_result where
  "outside_result =
     \<lparr>initial_portfolio = [\<lparr>symbol = ''B'', quantity = 5\<rparr>, \<lparr>symbol = ''Z'', quantity = 3\<rparr>],
      sell_operations =
        [\<lparr>symbol = ''B'', quantity = 5, action = Sell, investment = Fin 250\<rparr>,
         \<lparr>symbol = ''Z'', quantity = 3, action = Sell, investment = Fin 21\<rparr>],
      buy_operations =
        [\<lparr>symbol = ''A'', quantity = 12, action = Buy, investment = Fin 1200\<rparr>,
         \<lparr>symbol = ''B'', quantity = 0, action = Buy, investment = Fin 0\<rparr>],
      final_portfolio = [\<lparr>symbol = ''A'', quantity = 12\<rparr>, \<lparr>symbol = ''B'', quantity = 5\<rparr>],
      cash_remaining = Fin 71\<rparr>"

section \<open>Properties of the weight calculator\<close>

lemma calculate_weights_nth:
  assumes "calculate_weights data p = Inr ws"
  shows "map fst ws = map fst data"
    and "\<forall>i<length data.
           snd (ws ! i) =
             (if too_volatile data (snd (data ! i)) then Fin 0
              else the (raw_weight p) (snd (data ! i)))"
    and "raw_weight p \<noteq> None"
proof -
  from assms obtain f where f: "raw_weight p = Some f"
    by (cases "raw_weight p") (simp_all add: calculate_weights_def)
  with assms have ws: "ws = map (\<lambda>(s, r). (s, if too_volatile data r then Fin 0 else f r)) data"
    by (simp add: calculate_weights_def)
  show "map fst ws = map fst data"
    unfolding ws by (induction data) auto
  show "\<forall>i<length data.
           snd (ws ! i) =
             (if too_volatile data (snd (data ! i)) then Fin 0
              else the (raw_weight p) (snd (data ! i)))"
    unfolding ws f by (simp add: case_prod_beta)
  show "raw_weight p \<noteq> None"
    using f by simp
qed



text \<open>
  Claim C9. The weight of a row before the exclusion is 1/volatility for conservative,
  averageReturn/volatility for moderate, averageReturn for aggressive,
  (averageReturn + 1/volatility)/2 for balanced and averageReturn*2 - volatility for
  growth; for a finite return and a finite volatility above zero these are the quotients
  and differences of the two numbers.
\<close>

theorem raw_weight_formulas:
  "map_option (\<lambda>f. f r) (raw_weight ''conservative'') = Some (fl_div (Fin 1) (volatility r))
   \<and> map_option (\<lambda>f. f r) (raw_weight ''moderate'')
       = Some (fl_div (average_return r) (volatility r))
   \<and> map_option (\<lambda>f. f r) (raw_weight ''aggressive'') = Some (average_return r)
   \<and> map_option (\<lambda>f. f r) (raw_weight ''balanced'')
       = Some (fl_div (fl_add (average_return r) (fl_div (Fin 1) (volatility r))) (Fin 2))
   \<and> map_option (\<lambda>f. f r) (raw_weight ''growth'')
       = Some (fl_sub (fl_mul (average_return r) (Fin 2)) (volatility r))
   \<and> (\<forall>v a. volatility r = Fin v \<and> 0 < v \<and> average_return r = Fin a \<longrightarrow>
         map_option (\<lambda>f. f r) (raw_weight ''conservative'') = Some (Fin (1 / v))
       \<and> map_option (\<lambda>f. f r) (raw_weight ''moderate'') = Some (Fin (a / v))
       \<and> map_option (\<lambda>f. f r) (raw_weight ''aggressive'') = Some (Fin a)
       \<and> map_option (\<lambda>f. f r) (raw_weight ''balanced'') = Some (Fin ((a + 1 / v) / 2))
       \<and> map_option (\<lambda>f. f r) (raw_weight ''growth'') = Some (Fin (a * 2 - v)))"
  by (simp add: raw_weight_def fl_sub_def)

theorem raw_weight_formulas_witness:
  "map_option (\<lambda>f. f \<lparr>volatility = Fin (1 / 2), average_return = Fin (1 / 5), price = Fin 50\<rparr>)
     (raw_weight ''balanced'') = Some (Fin (11 / 10))
   \<and> map_option (\<lambda>f. f \<lparr>volatility = Fin (1 / 2), average_return = Fin (1 / 5), price = Fin 50\<rparr>)
     (raw_weight ''growth'') = Some (Fin (- (1 / 10)))"
proof -
  let ?r = "\<lparr>volatility = Fin (1 / 2), average_return = Fin (1 / 5), price = Fin 50\<rparr>"
  have "volatility ?r = Fin (1 / 2) \<and> (0::rat) < 1 / 2 \<and> average_return ?r = Fin (1 / 5)"
    by simp
  with raw_weight_formulas [of ?r]
  have "map_option (\<lambda>f. f ?r) (raw_weight ''balanced'') = Some (Fin ((1 / 5 + 1 / (1 / 2)) / 2))
      \<and> map_option (\<lambda>f. f ?r) (raw_weight ''growth'') = Some (Fin (1 / 5 * 2 - 1 / 2))"
    by blast
  then show ?thesis by simp
qed


section \<open>Properties of the allocation pass\<close>

lemma loc_rows_Inr:
  "loc_rows md syms = Inr rows \<Longrightarrow>
     rows = map (\<lambda>s. (s, the (md s))) syms \<and> (\<forall>s\<in>set syms. md s \<noteq> None)"
  by (induction syms arbitrary: rows) (auto split: option.splits sum.splits)





lemma sell_loop_acc:
  "sell_loop md fb ps (ops, c) =
     (ops @ map (sell_operation md fb) ps,
      foldl fl_add c (map (\<lambda>p. investment (sell_operation md fb p)) ps))"
  by (induction ps arbitrary: ops c) (simp_all add: Let_def)




text \<open>
  Claim C2, as amended. In the scenario both symbols are selected and their weights
  before the exclusion are 10 and 2. The 90th percentile of the two volatilities is
  0.46, so B, at 0.5, is excluded: the weights are 10 and 0, normalized 1 and 0, and the
  buy planner buys 10 A for 1000 and 0 B.
\<close>

theorem scenario_outcome:
  "selected_data scenario_market (available_assets scenario_input) = Inr scenario_data
   \<and> map_option (\<lambda>f. map (\<lambda>(s, r). (s, f r)) scenario_data) (raw_weight (risk_profile scenario_input))
       = Some [(''A'', Fin 10), (''B'', Fin 2)]
   \<and> quantile09 (map (\<lambda>(s, r). volatility r) scenario_data) = Fin (23 / 50)
   \<and> too_volatile scenario_data (snd (scenario_data ! 1))
   \<and> calculate_weights scenario_data (risk_profile scenario_input) = Inr [(''A'', Fin 10), (''B'', Fin 0)]
   \<and> normalized_weights scenario_data (risk_profile scenario_input) = Inr [(''A'', Fin 1), (''B'', Fin 0)]
   \<and> buy_loop (Fin (investment_amount scenario_input)) [(''A'', Fin 1), (''B'', Fin 0)] scenario_data
        (available_assets scenario_input) ([], Fin 0)
       = Inr ([\<lparr>symbol = ''A'', quantity = \<lfloor>1000 * 1 / 100 :: rat\<rfloor>, action = Buy, investment = Fin 1000\<rparr>,
               \<lparr>symbol = ''B'', quantity = \<lfloor>1000 * 0 / 50 :: rat\<rfloor>, action = Buy, investment = Fin 0\<rparr>],
              Fin 1000)"
  by code_simp

text \<open>In the scenario the weight of B after the weight calculation is not 2.\<close>

theorem scenario_b_excluded:
  "calculate_weights scenario_data ''conservative'' \<noteq> Inr [(''A'', Fin 10), (''B'', Fin 2)]"
  by code_simp

text \<open>
  With the empty portfolio of the scenario the pass stops at line 117: the frame of an
  empty list has no column to index by.
\<close>

lemma scenario_run_aborts:
  "optimize_portfolio scenario_input scenario_market no_fallback = Inl (KeyError ''symbol'')"
  by code_simp

lemma fl_add_not_fin: "\<not> is_fin y \<Longrightarrow> \<not> is_fin (fl_add y x)"
  by (cases y; cases x) simp_all

lemma foldl_fl_add_not_fin: "\<not> is_fin y \<Longrightarrow> \<not> is_fin (foldl fl_add y xs)"
  by (induction xs arbitrary: y) (simp_all add: fl_add_not_fin)

lemma foldl_fl_add_Fin:
  "foldl fl_add (Fin a) xs = Fin s \<Longrightarrow> \<exists>rs. xs = map Fin rs \<and> s = a + sum_list rs"
proof (induction xs arbitrary: a)
  case Nil
  then show ?case by simp
next
  case (Cons x xs)
  show ?case
  proof (cases x)
    case (Fin b)
    with Cons.prems have "foldl fl_add (Fin (a + b)) xs = Fin s" by simp
    from Cons.IH [OF this] obtain rs where "xs = map Fin rs" "s = a + b + sum_list rs" by blast
    then have "x # xs = map Fin (b # rs) \<and> s = a + sum_list (b # rs)"
      using Fin by simp
    then show ?thesis by (rule exI [where x = "b # rs"])
  next
    case PInf
    then have "\<not> is_fin (foldl fl_add (fl_add (Fin a) x) xs)"
      by (intro foldl_fl_add_not_fin) simp
    with Cons.prems show ?thesis by simp
  next
    case NInf
    then have "\<not> is_fin (foldl fl_add (fl_add (Fin a) x) xs)"
      by (intro foldl_fl_add_not_fin) simp
    with Cons.prems show ?thesis by simp
  next
    case NaN
    then have "\<not> is_fin (foldl fl_add (fl_add (Fin a) x) xs)"
      by (intro foldl_fl_add_not_fin) simp
    with Cons.prems show ?thesis by simp
  qed
qed

lemma foldl_fl_add_map_Fin: "foldl fl_add (Fin a) (map Fin rs) = Fin (a + sum_list rs)"
  by (induction rs arbitrary: a) (simp_all add: add.assoc)

lemma filter_div_Fin:
  assumes "s \<noteq> 0" and "filter (\<lambda>w. \<not> is_nan w) vs = map Fin rs"
  shows "filter (\<lambda>w. \<not> is_nan w) (map (\<lambda>w. fl_div w (Fin s)) vs) = map (\<lambda>r. Fin (r / s)) rs"
  using assms(2)
proof (induction vs arbitrary: rs)
  case Nil
  then show ?case by simp
next
  case (Cons v vs)
  show ?case
  proof (cases v)
    case NaN
    with Cons show ?thesis by simp
  next
    case (Fin b)
    with Cons.prems obtain rs' where "rs = b # rs'" "filter (\<lambda>w. \<not> is_nan w) vs = map Fin rs'"
      by (cases rs) auto
    with Cons.IH [of rs'] Fin assms(1) show ?thesis by simp
  next
    case PInf
    with Cons.prems show ?thesis by (cases rs) auto
  next
    case NInf
    with Cons.prems show ?thesis by (cases rs) auto
  qed
qed

text \<open>
  Claim C4, as amended. Whenever the sum of the weights after the exclusion is a finite
  number other than zero, the normalized weights sum to 1.
\<close>

theorem normalized_sum_one:
  assumes "series_sum (map snd ws) = Fin s" and "s \<noteq> 0"
  shows "series_sum (map snd (normalize ws)) = Fin 1"
proof -
  define vs where "vs = map snd ws"
  from assms(1) obtain rs where rs: "filter (\<lambda>w. \<not> is_nan w) vs = map Fin rs" "s = sum_list rs"
    unfolding series_sum_def vs_def using foldl_fl_add_Fin [of 0] by fastforce
  have "map snd (normalize ws) = map (\<lambda>w. fl_div w (Fin s)) vs"
    by (simp add: normalize_def assms(1) case_prod_beta vs_def)
  then have "series_sum (map snd (normalize ws)) =
      foldl fl_add (Fin 0) (filter (\<lambda>w. \<not> is_nan w) (map (\<lambda>w. fl_div w (Fin s)) vs))"
    by (simp only: series_sum_def)
  also have "\<dots> = foldl fl_add (Fin 0) (map Fin (map (\<lambda>r. r / s) rs))"
    by (simp add: filter_div_Fin [OF assms(2) rs(1)] comp_def)
  also have "\<dots> = Fin (sum_list (map (\<lambda>r. r / s) rs))"
    using foldl_fl_add_map_Fin [of 0 "map (\<lambda>r. r / s) rs"] by simp
  also have "sum_list (map (\<lambda>r. r / s) rs) = sum_list rs / s"
    by (induction rs) (simp_all add: add_divide_distrib)
  finally show ?thesis using rs(2) assms(2) by simp
qed

theorem normalized_sum_one_witness:
  "series_sum (map snd [(''A'', Fin 10), (''B'', Fin 0)]) = Fin 10 \<and> (10::rat) \<noteq> 0
   \<and> series_sum (map snd (normalize [(''A'', Fin 10), (''B'', Fin 0)])) = Fin 1"
proof -
  have h: "series_sum (map snd [(''A'', Fin 10), (''B'', Fin 0)]) = Fin 10"
    by (simp add: series_sum_def)
  have n: "(10::rat) \<noteq> 0" by simp
  from h n normalized_sum_one [OF h n] show ?thesis by simp
qed

text \<open>
  Two weights that are not zero and cancel: the normalization divides by zero and the
  normalized weights do not sum to 1.
\<close>

theorem zero_sum_not_normalized:
  "calculate_weights opposite_returns ''aggressive'' = Inr [(''A'', Fin (1 / 2)), (''B'', Fin (- (1 / 2)))]
   \<and> normalize [(''A'', Fin (1 / 2)), (''B'', Fin (- (1 / 2)))] = [(''A'', PInf), (''B'', NInf)]
   \<and> series_sum (map snd (normalize [(''A'', Fin (1 / 2)), (''B'', Fin (- (1 / 2)))])) \<noteq> Fin 1"
  by code_simp

lemma buy_loop_acc:
  "buy_loop tot ws data syms (ops, c) = Inr (ops', c') \<Longrightarrow>
     \<exists>new. ops' = ops @ new
         \<and> list_all2 (\<lambda>s op. buy_operation tot ws data s = Inr op) syms new
         \<and> c' = foldl fl_add c (map investment new)"
proof (induction syms arbitrary: ops c)
  case Nil
  then show ?case by simp
next
  case (Cons s ss)
  from Cons.prems obtain op where op: "buy_operation tot ws data s = Inr op"
    and rest: "buy_loop tot ws data ss (ops @ [op], fl_add c (investment op)) = Inr (ops', c')"
    by (cases "buy_operation tot ws data s") simp_all
  from Cons.IH [OF rest] obtain new where
    "ops' = (ops @ [op]) @ new"
    "list_all2 (\<lambda>s op. buy_operation tot ws data s = Inr op) ss new"
    "c' = foldl fl_add (fl_add c (investment op)) (map investment new)"
    by blast
  then have "ops' = ops @ (op # new)
         \<and> list_all2 (\<lambda>s op. buy_operation tot ws data s = Inr op) (s # ss) (op # new)
         \<and> c' = foldl fl_add c (map investment (op # new))"
    using op by simp
  then show ?case by (rule exI [where x = "op # new"])
qed

lemma buy_loop_fails:
  "s \<in> set syms \<Longrightarrow> buy_operation tot ws data s = Inl e \<Longrightarrow>
     \<exists>e'. buy_loop tot ws data syms acc = Inl e'"
proof (induction syms arbitrary: acc)
  case Nil
  then show ?case by simp
next
  case (Cons x xs)
  obtain ops c where acc: "acc = (ops, c)" by (cases acc)
  show ?case
  proof (cases "buy_operation tot ws data x")
    case (Inl a)
    then show ?thesis by (simp add: acc)
  next
    case (Inr op)
    with Cons.prems have "s \<in> set xs" by auto
    from Cons.IH [OF this Cons.prems(2)] Inr show ?thesis by (simp add: acc)
  qed
qed

lemma series_get_absent:
  "s \<notin> fst ` set ws \<Longrightarrow> series_get ws s = Inl (KeyError s)"
proof -
  assume "s \<notin> fst ` set ws"
  then have "filter (\<lambda>(k, v). k = s) ws = []"
    by (force simp: filter_empty_conv)
  then show ?thesis by (simp add: series_get_def)
qed

lemma normalize_keys: "map fst (normalize ws) = map fst ws"
  by (simp add: normalize_def case_prod_beta)

lemma normalized_weights_keys:
  "normalized_weights data p = Inr ws \<Longrightarrow> map fst ws = map fst data"
  by (auto simp: normalized_weights_def normalize_keys calculate_weights_nth(1) split: sum.splits)

text \<open>
  Claim C5 asks that a symbol of the available assets without statistics be left out
  and the pass go on. What the pass does: when a symbol of the available assets has no
  row in the market data, or a row with a NaN entry, the pass returns no result. Without
  a row the lookup of line 59 fails; with a NaN row \<open>dropna\<close> removes the symbol
  from the weights, and the buy loop, which still runs over every available symbol,
  fails on \<open>weights[symbol]\<close>.
\<close>

theorem missing_statistics_abort:
  assumes "s \<in> set (available_assets inp)"
    and "md s = None
       \<or> (\<exists>r. md s = Some r \<and> (is_nan (volatility r) \<or> is_nan (average_return r) \<or> is_nan (price r)))"
  shows "\<exists>e. optimize_portfolio inp md fb = Inl e"
proof (cases "selected_data md (available_assets inp)")
  case (Inl e)
  then show ?thesis by (simp add: optimize_portfolio_def)
next
  case data: (Inr data)
  then obtain rows where rows: "loc_rows md (available_assets inp) = Inr rows" "data = dropna rows"
    by (auto simp: selected_data_def split: sum.splits)
  from loc_rows_Inr [OF rows(1)] assms have "s \<notin> fst ` set data"
    by (auto simp: rows(2) dropna_def)
  show ?thesis
  proof (cases "normalized_weights data (risk_profile inp)")
    case (Inl e)
    then show ?thesis by (simp add: optimize_portfolio_def data)
  next
    case ws: (Inr ws)
    from normalized_weights_keys [OF ws] \<open>s \<notin> fst ` set data\<close> have "s \<notin> fst ` set ws"
      by (metis set_map)
    then have "buy_operation tot ws data s = Inl (KeyError s)" for tot
      by (simp add: buy_operation_def series_get_absent)
    from buy_loop_fails [OF assms(1) this]
    have fails: "\<exists>e'. buy_loop tot ws data (available_assets inp) acc = Inl e'" for tot acc
      by blast
    show ?thesis
    proof (cases "unsuitable_positions (available_assets inp) md ws (current_portfolio inp)")
      case (Inl e)
      then show ?thesis by (simp add: optimize_portfolio_def data ws)
    next
      case (Inr us)
      obtain sells cash where sl: "sell_loop md fb us ([], Fin 0) = (sells, cash)"
        by (cases "sell_loop md fb us ([], Fin 0)")
      from fails [of "fl_add (Fin (investment_amount inp)) cash" "([], Fin 0)"]
      show ?thesis by (auto simp: optimize_portfolio_def data ws Inr sl)
    qed
  qed
qed

theorem missing_statistics_abort_witness:
  "''B'' \<in> set (available_assets held_input)
   \<and> one_row_market ''B'' = None
   \<and> is_nan (volatility (the (nan_row_market ''B'')))
   \<and> (\<exists>e. optimize_portfolio held_input one_row_market no_fallback = Inl e)
   \<and> (\<exists>e. optimize_portfolio held_input nan_row_market no_fallback = Inl e)"
proof -
  have a: "''B'' \<in> set (available_assets held_input)"
    by (simp add: held_input_def)
  have b: "one_row_market ''B'' = None"
    by (simp add: one_row_market_def)
  have c: "nan_row_market ''B'' = Some \<lparr>volatility = NaN, average_return = NaN, price = NaN\<rparr>"
    by (simp add: nan_row_market_def)
  have "\<exists>e. optimize_portfolio held_input one_row_market no_fallback = Inl e"
    using missing_statistics_abort [OF a, of one_row_market no_fallback] b by blast
  moreover have "\<exists>e. optimize_portfolio held_input nan_row_market no_fallback = Inl e"
    using missing_statistics_abort [OF a, of nan_row_market no_fallback] c by simp
  ultimately show ?thesis using a b c by simp
qed

text \<open>The error in the second case is the key error of line 101.\<close>

lemma nan_row_aborts:
  "optimize_portfolio held_input nan_row_market no_fallback = Inl (KeyError ''B'')"
  by code_simp

lemma optimize_portfolio_Inr:
  assumes "optimize_portfolio inp md fb = Inr res"
  obtains data weights unsuitable sells cash ops spent final where
    "selected_data md (available_assets inp) = Inr data"
    "normalized_weights data (risk_profile inp) = Inr weights"
    "unsuitable_positions (available_assets inp) md weights (current_portfolio inp) = Inr unsuitable"
    "sell_loop md fb unsuitable ([], Fin 0) = (sells, cash)"
    "buy_loop (fl_add (Fin (investment_amount inp)) cash) weights data (available_assets inp) ([], Fin 0)
       = Inr (ops, spent)"
    "merge_portfolio (current_portfolio inp) ops = Inr final"
    "res = \<lparr>initial_portfolio = current_portfolio inp, sell_operations = sells,
            buy_operations = ops, final_portfolio = final,
            cash_remaining = round2 (fl_sub (fl_add (Fin (investment_amount inp)) cash) spent)\<rparr>"
  using assms unfolding optimize_portfolio_def Let_def
  by (auto split: sum.splits prod.splits)

lemma buy_operation_Inr:
  assumes "buy_operation tot ws data s = Inr op"
  shows "symbol op = s \<and> action op = Buy
       \<and> (\<exists>w r. series_get ws s = Inr w \<and> series_get data s = Inr r
            \<and> (if fl_less (Fin 0) (price r)
                then to_int (fl_div (fl_mul tot w) (price r)) = Inr (quantity op)
                else quantity op = 0)
            \<and> investment op = round2 (fl_mul (Fin (of_int (quantity op))) (price r)))"
proof -
  from assms obtain w where w: "series_get ws s = Inr w"
    by (cases "series_get ws s") (simp_all add: buy_operation_def)
  from assms w obtain r where r: "series_get data s = Inr r"
    by (cases "series_get data s") (simp_all add: buy_operation_def)
  from assms w r obtain q where q: "buy_quantity (fl_mul tot w) (price r) = Inr q"
    by (cases "buy_quantity (fl_mul tot w) (price r)") (simp_all add: buy_operation_def)
  from assms w r q have op: "op = \<lparr>symbol = s, quantity = q, action = Buy,
                         investment = round2 (fl_mul (Fin (of_int q)) (price r))\<rparr>"
    by (simp add: buy_operation_def)
  have "if fl_less (Fin 0) (price r)
        then to_int (fl_div (fl_mul tot w) (price r)) = Inr (quantity op)
        else quantity op = 0"
    using q unfolding op buy_quantity_def by (simp split: if_splits)
  with w r show ?thesis unfolding op by simp
qed

lemma buy_loop_start:
  assumes "buy_loop tot ws data syms ([], Fin 0) = Inr (ops, spent)"
  shows "list_all2 (\<lambda>s op. buy_operation tot ws data s = Inr op) syms ops"
    and "spent = foldl fl_add (Fin 0) (map investment ops)"
  using buy_loop_acc [OF assms] by auto

lemma list_all2_symbols:
  "list_all2 (\<lambda>s op. buy_operation tot ws data s = Inr op) syms ops \<Longrightarrow> map symbol ops = syms"
  by (induction syms ops rule: list_all2_induct) (auto dest: buy_operation_Inr)


lemma held_run: "optimize_portfolio held_input scenario_market no_fallback = Inr held_result"
  by code_simp



lemma short_run:
  "optimize_portfolio short_input short_market no_fallback =
     Inr \<lparr>initial_portfolio = [\<lparr>symbol = ''A'', quantity = 1\<rparr>],
          sell_operations = [],
          buy_operations =
            [\<lparr>symbol = ''A'', quantity = 15, action = Buy, investment = Fin 1500\<rparr>,
             \<lparr>symbol = ''B'', quantity = - 16, action = Buy, investment = Fin (- 480)\<rparr>],
          final_portfolio = [\<lparr>symbol = ''A'', quantity = 16\<rparr>],
          cash_remaining = Fin (- 20)\<rparr>"
  by code_simp

lemma subcent_run:
  "optimize_portfolio subcent_input subcent_market no_fallback =
     Inr \<lparr>initial_portfolio = [\<lparr>symbol = ''A'', quantity = 1\<rparr>],
          sell_operations = [],
          buy_operations =
            [\<lparr>symbol = ''A'', quantity = 1, action = Buy, investment = Fin (10001 / 100)\<rparr>,
             \<lparr>symbol = ''B'', quantity = 1, action = Buy, investment = Fin (10001 / 100)\<rparr>,
             \<lparr>symbol = ''C'', quantity = 1, action = Buy, investment = Fin (10001 / 100)\<rparr>,
             \<lparr>symbol = ''D'', quantity = 1, action = Buy, investment = Fin (10001 / 100)\<rparr>],
          final_portfolio =
            [\<lparr>symbol = ''A'', quantity = 2\<rparr>, \<lparr>symbol = ''B'', quantity = 1\<rparr>,
             \<lparr>symbol = ''C'', quantity = 1\<rparr>, \<lparr>symbol = ''D'', quantity = 1\<rparr>],
          cash_remaining = Fin (- (1 / 100))\<rparr>"
  by code_simp










lemma unsuitable_positions_mem:
  "unsuitable_positions symbols md ws ps = Inr us \<Longrightarrow> p \<in> set ps \<Longrightarrow>
     is_unsuitable symbols md ws p = Inr True \<Longrightarrow> p \<in> set us"
proof (induction ps arbitrary: us)
  case Nil
  then show ?case by simp
next
  case (Cons x xs)
  from Cons.prems(1) obtain b us' where b: "is_unsuitable symbols md ws x = Inr b"
    and us': "unsuitable_positions symbols md ws xs = Inr us'"
    and us: "us = (if b then x # us' else us')"
    by (auto split: sum.splits)
  show ?case
  proof (cases "p = x")
    case True
    with Cons.prems(3) b us show ?thesis by simp
  next
    case False
    with Cons.prems(2) have "p \<in> set xs" by simp
    from Cons.IH [OF us' this Cons.prems(3)] us show ?thesis by simp
  qed
qed

lemma set_union_index: "set (union_index xs ys) = set xs \<union> set ys"
  by (simp add: union_index_def)

lemma set_map_filter_eq: "set (List.map_filter f xs) = {y. \<exists>x\<in>set xs. f x = Some y}"
  by (induction xs) (auto simp: List.map_filter_simps split: option.splits)

lemma merge_portfolio_final:
  assumes "merge_portfolio current ops = Inr final"
  shows "final = List.map_filter
                  (\<lambda>s. case merged_quantity current ops s of
                          None \<Rightarrow> None
                        | Some q \<Rightarrow> if 0 < q then Some \<lparr>symbol = s, quantity = q\<rparr> else None)
                  (union_index (map symbol current) (map symbol ops))"
  using assms by (simp add: merge_portfolio_def split: if_splits)

lemma merge_portfolio_sound:
  assumes "merge_portfolio current ops = Inr final" and "x \<in> set final"
  shows "merged_quantity current ops (symbol x) = Some (quantity x) \<and> 0 < quantity x"
proof -
  from assms obtain s where
    s: "(case merged_quantity current ops s of
           None \<Rightarrow> None
         | Some q \<Rightarrow> if 0 < q then Some \<lparr>symbol = s, quantity = q\<rparr> else None) = Some x"
    unfolding merge_portfolio_final [OF assms(1)] set_map_filter_eq by blast
  then obtain q where q: "merged_quantity current ops s = Some q"
    by (cases "merged_quantity current ops s") simp_all
  with s have "0 < q" and "x = \<lparr>symbol = s, quantity = q\<rparr>"
    by (simp_all split: if_splits)
  with q show ?thesis by simp
qed

lemma merge_portfolio_complete:
  assumes "merge_portfolio current ops = Inr final"
    and "s \<in> set (map symbol current) \<union> set (map symbol ops)"
    and "merged_quantity current ops s = Some q" and "0 < q"
  shows "\<lparr>symbol = s, quantity = q\<rparr> \<in> set final"
proof -
  have "s \<in> set (union_index (map symbol current) (map symbol ops))"
    using assms(2) by (simp only: set_union_index)
  moreover have "(case merged_quantity current ops s of
           None \<Rightarrow> None
         | Some q \<Rightarrow> if 0 < q then Some \<lparr>symbol = s, quantity = q\<rparr> else None)
      = Some \<lparr>symbol = s, quantity = q\<rparr>"
    using assms(3,4) by simp
  ultimately show ?thesis
    unfolding merge_portfolio_final [OF assms(1)] set_map_filter_eq by blast
qed

lemma merged_quantity_no_buy_row:
  "s \<notin> symbol ` set ops \<Longrightarrow> merged_quantity current ops s = None"
proof -
  assume "s \<notin> symbol ` set ops"
  then have "map_of (map (\<lambda>op. (symbol op, quantity op)) ops) s = None"
    by (simp add: map_of_eq_None_iff image_image)
  then show ?thesis by (simp add: merged_quantity_def)
qed

lemma merged_quantity_zero_buy:
  assumes "distinct (map symbol current)" and "p \<in> set current"
    and "symbol p \<in> symbol ` set ops"
    and "\<forall>op\<in>set ops. symbol op = symbol p \<longrightarrow> quantity op = 0"
  shows "merged_quantity current ops (symbol p) = Some (quantity p)"
proof -
  from assms(3) obtain b where b: "map_of (map (\<lambda>op. (symbol op, quantity op)) ops) (symbol p) = Some b"
    by (cases "map_of (map (\<lambda>op. (symbol op, quantity op)) ops) (symbol p)")
       (auto simp: map_of_eq_None_iff image_image)
  then have "(symbol p, b) \<in> set (map (\<lambda>op. (symbol op, quantity op)) ops)"
    by (rule map_of_SomeD)
  with assms(4) have "b = 0" by auto
  have "distinct (map fst (map (\<lambda>p. (symbol p, quantity p)) current))"
    using assms(1) by (simp add: comp_def)
  moreover have "(symbol p, quantity p) \<in> set (map (\<lambda>p. (symbol p, quantity p)) current)"
    using assms(2) by auto
  ultimately have "map_of (map (\<lambda>p. (symbol p, quantity p)) current) (symbol p) = Some (quantity p)"
    by (rule map_of_is_SomeI)
  with b \<open>b = 0\<close> show ?thesis by (simp add: merged_quantity_def)
qed

lemma zero_weight_buys_nothing:
  assumes "buy_operation tot ws data s = Inr op" and "series_get ws s = Inr (Fin 0)"
  shows "quantity op = 0"
proof -
  note ex = buy_operation_Inr [OF assms(1), THEN conjunct2, THEN conjunct2]
  then obtain w where "\<exists>r. series_get ws s = Inr w \<and> series_get data s = Inr r
            \<and> (if fl_less (Fin 0) (price r)
                then to_int (fl_div (fl_mul tot w) (price r)) = Inr (quantity op)
                else quantity op = 0)
            \<and> investment op = round2 (fl_mul (Fin (of_int (quantity op))) (price r))" ..
  then obtain r where wr: "series_get ws s = Inr w \<and> series_get data s = Inr r
            \<and> (if fl_less (Fin 0) (price r)
                then to_int (fl_div (fl_mul tot w) (price r)) = Inr (quantity op)
                else quantity op = 0)
            \<and> investment op = round2 (fl_mul (Fin (of_int (quantity op))) (price r))" ..
  note w = wr [THEN conjunct1]
  note r0 = wr [THEN conjunct2, THEN conjunct2, THEN conjunct1]
  from w assms(2) have w0: "w = Fin 0" by simp
  note r = r0 [unfolded w0]
  show ?thesis
  proof (cases "fl_less (Fin 0) (price r)")
    case False
    with r show ?thesis by simp
  next
    case True
    with r have q: "to_int (fl_div (fl_mul tot (Fin 0)) (price r)) = Inr (quantity op)" by simp
    show ?thesis
    proof (cases tot)
      case (Fin t)
      with q True show ?thesis by (cases "price r") (simp_all add: trunc_def split: if_splits)
    next
      case PInf
      with q show ?thesis by simp
    next
      case NInf
      with q show ?thesis by simp
    next
      case NaN
      with q show ?thesis by simp
    qed
  qed
qed

text \<open>
  Claim C6, as amended. The merge takes the current portfolio and the buy operations and
  nothing of the sell operations. When the pass returns, for a portfolio that lists each
  symbol once: a position whose symbol is outside the available assets is sold and is
  missing from the final portfolio because it has no buy row, so that its merged quantity
  is undefined; a position whose symbol is in the available assets with a normalized
  weight of exactly zero is sold, its buy quantity is zero, its merged quantity is its
  original quantity, and it is in the final portfolio at that quantity when the quantity
  is above zero.
\<close>

theorem sold_positions_in_merge:
  assumes run: "optimize_portfolio inp md fb = Inr res"
    and dist: "distinct (map symbol (current_portfolio inp))"
    and p: "p \<in> set (current_portfolio inp)"
  shows "merge_portfolio (current_portfolio inp) (buy_operations res) = Inr (final_portfolio res)
       \<and> (symbol p \<notin> set (available_assets inp) \<longrightarrow>
            sell_operation md fb p \<in> set (sell_operations res)
          \<and> merged_quantity (current_portfolio inp) (buy_operations res) (symbol p) = None
          \<and> symbol p \<notin> symbol ` set (final_portfolio res))
       \<and> (symbol p \<in> set (available_assets inp) \<longrightarrow>
            (\<forall>data weights.
               selected_data md (available_assets inp) = Inr data
             \<and> normalized_weights data (risk_profile inp) = Inr weights
             \<and> series_get weights (symbol p) = Inr (Fin 0) \<longrightarrow>
                 sell_operation md fb p \<in> set (sell_operations res)
               \<and> merged_quantity (current_portfolio inp) (buy_operations res) (symbol p)
                   = Some (quantity p)
               \<and> (0 < quantity p \<longrightarrow> p \<in> set (final_portfolio res))))"
proof -
  from run obtain data weights unsuitable sells cash ops spent final where st:
    "selected_data md (available_assets inp) = Inr data"
    "normalized_weights data (risk_profile inp) = Inr weights"
    "unsuitable_positions (available_assets inp) md weights (current_portfolio inp) = Inr unsuitable"
    "sell_loop md fb unsuitable ([], Fin 0) = (sells, cash)"
    "buy_loop (fl_add (Fin (investment_amount inp)) cash) weights data (available_assets inp) ([], Fin 0)
       = Inr (ops, spent)"
    "merge_portfolio (current_portfolio inp) ops = Inr final"
    "res = \<lparr>initial_portfolio = current_portfolio inp, sell_operations = sells,
            buy_operations = ops, final_portfolio = final,
            cash_remaining = round2 (fl_sub (fl_add (Fin (investment_amount inp)) cash) spent)\<rparr>"
    by (rule optimize_portfolio_Inr)
  let ?tot = "fl_add (Fin (investment_amount inp)) cash"
  have sells: "sells = map (sell_operation md fb) unsuitable"
    using st(4) by (simp add: sell_loop_acc)
  have bo: "buy_operations res = ops" and fp: "final_portfolio res = final"
    and so: "sell_operations res = sells"
    by (simp_all add: st(7))
  note la = buy_loop_start(1) [OF st(5)]
  have syms: "map symbol ops = available_assets inp"
    by (rule list_all2_symbols [OF la])
  have sold: "sell_operation md fb p \<in> set sells"
    if "is_unsuitable (available_assets inp) md weights p = Inr True"
    using unsuitable_positions_mem [OF st(3) p that] by (simp add: sells)
  have merge: "merge_portfolio (current_portfolio inp) (buy_operations res) = Inr (final_portfolio res)"
    by (simp add: bo fp st(6))
  have outside: "sell_operation md fb p \<in> set (sell_operations res)
          \<and> merged_quantity (current_portfolio inp) (buy_operations res) (symbol p) = None
          \<and> symbol p \<notin> symbol ` set (final_portfolio res)"
    if out: "symbol p \<notin> set (available_assets inp)"
  proof -
    have "is_unsuitable (available_assets inp) md weights p = Inr True"
      using out by (simp add: is_unsuitable_def)
    then have a: "sell_operation md fb p \<in> set sells" by (rule sold)
    have "symbol p \<notin> symbol ` set ops"
      using out syms by (metis set_map)
    then have b: "merged_quantity (current_portfolio inp) ops (symbol p) = None"
      by (rule merged_quantity_no_buy_row)
    have c: "symbol p \<notin> symbol ` set final"
    proof
      assume "symbol p \<in> symbol ` set final"
      then obtain x where "x \<in> set final" "symbol x = symbol p" by auto
      with merge_portfolio_sound [OF st(6), of x] b show False by simp
    qed
    from a b c show ?thesis by (simp add: bo fp so)
  qed
  have inside: "sell_operation md fb p \<in> set (sell_operations res)
               \<and> merged_quantity (current_portfolio inp) (buy_operations res) (symbol p)
                   = Some (quantity p)
               \<and> (0 < quantity p \<longrightarrow> p \<in> set (final_portfolio res))"
    if ins: "symbol p \<in> set (available_assets inp)"
      and d': "selected_data md (available_assets inp) = Inr data'"
      and w': "normalized_weights data' (risk_profile inp) = Inr weights'"
      and z': "series_get weights' (symbol p) = Inr (Fin 0)"
    for data' weights'
  proof -
    from d' st(1) have "data' = data" by simp
    with w' st(2) have "weights' = weights" by simp
    with z' have z: "series_get weights (symbol p) = Inr (Fin 0)" by simp
    from st(1) obtain rows where "loc_rows md (available_assets inp) = Inr rows"
      by (auto simp: selected_data_def split: sum.splits)
    from loc_rows_Inr [OF this] ins have "md (symbol p) \<noteq> None" by blast
    with ins z have "is_unsuitable (available_assets inp) md weights p = Inr True"
      by (simp add: is_unsuitable_def)
    then have a: "sell_operation md fb p \<in> set sells" by (rule sold)
    have zero: "\<forall>op\<in>set ops. symbol op = symbol p \<longrightarrow> quantity op = 0"
    proof (intro ballI impI)
      fix op
      assume "op \<in> set ops" and eq: "symbol op = symbol p"
      with la obtain s where bop: "buy_operation ?tot weights data s = Inr op"
        by (auto simp: list_all2_conv_all_nth in_set_conv_nth)
      from buy_operation_Inr [OF bop] eq have "s = symbol p" by simp
      with bop z show "quantity op = 0"
        by (auto intro: zero_weight_buys_nothing)
    qed
    have mem: "symbol p \<in> symbol ` set ops"
      using ins syms by (metis set_map)
    have b: "merged_quantity (current_portfolio inp) ops (symbol p) = Some (quantity p)"
      by (rule merged_quantity_zero_buy [OF dist p mem zero])
    have c: "p \<in> set final" if "0 < quantity p"
    proof -
      have "symbol p \<in> set (map symbol (current_portfolio inp)) \<union> set (map symbol ops)"
        using p by simp
      from merge_portfolio_complete [OF st(6) this b that]
      have "\<lparr>symbol = symbol p, quantity = quantity p\<rparr> \<in> set final" .
      moreover have "\<lparr>symbol = symbol p, quantity = quantity p\<rparr> = p"
        by (cases p) simp
      ultimately show ?thesis by (simp only:)
    qed
    from a b c show ?thesis by (simp add: bo fp so)
  qed
  from merge outside inside show ?thesis by blast
qed

theorem sold_positions_in_merge_witness:
  "optimize_portfolio outside_input scenario_market z_fallback = Inr outside_result
   \<and> distinct (map symbol (current_portfolio outside_input))
   \<and> \<lparr>symbol = ''B'', quantity = 5\<rparr> \<in> set (current_portfolio outside_input)
   \<and> series_get [(''A'', Fin 1), (''B'', Fin 0)] ''B'' = Inr (Fin 0)
   \<and> sell_operation scenario_market z_fallback \<lparr>symbol = ''B'', quantity = 5\<rparr>
        \<in> set (sell_operations outside_result)
   \<and> \<lparr>symbol = ''B'', quantity = 5\<rparr> \<in> set (final_portfolio outside_result)"
proof -
  let ?p = "\<lparr>symbol = ''B'', quantity = 5\<rparr>"
  have h: "optimize_portfolio outside_input scenario_market z_fallback = Inr outside_result"
    by code_simp
  have d: "distinct (map symbol (current_portfolio outside_input))"
    by (simp add: outside_input_def)
  have m: "?p \<in> set (current_portfolio outside_input)"
    by (simp add: outside_input_def)
  have a: "symbol ?p \<in> set (available_assets outside_input)"
    by (simp add: outside_input_def)
  have s: "selected_data scenario_market (available_assets outside_input) = Inr scenario_data"
    by code_simp
  have n: "normalized_weights scenario_data (risk_profile outside_input)
             = Inr [(''A'', Fin 1), (''B'', Fin 0)]"
    by code_simp
  have z: "series_get [(''A'', Fin 1), (''B'', Fin 0)] (symbol ?p) = Inr (Fin 0)"
    by (simp add: series_get_def)
  have q: "0 < quantity ?p" by simp
  from sold_positions_in_merge [OF h d m] a s n z q
  have "sell_operation scenario_market z_fallback ?p \<in> set (sell_operations outside_result)
      \<and> ?p \<in> set (final_portfolio outside_result)"
    by blast
  with h d m z show ?thesis by simp
qed

text \<open>
  A position of quantity 0 in B, whose weight is zero: it is sold and it is not in the
  final portfolio.
\<close>

theorem zero_quantity_sold_and_dropped:
  "normalized_weights scenario_data ''conservative'' = Inr [(''A'', Fin 1), (''B'', Fin 0)]
   \<and> optimize_portfolio zero_holding_input scenario_market no_fallback =
       Inr \<lparr>initial_portfolio = [\<lparr>symbol = ''B'', quantity = 0\<rparr>],
            sell_operations = [\<lparr>symbol = ''B'', quantity = 0, action = Sell, investment = Fin 0\<rparr>],
            buy_operations =
              [\<lparr>symbol = ''A'', quantity = 10, action = Buy, investment = Fin 1000\<rparr>,
               \<lparr>symbol = ''B'', quantity = 0, action = Buy, investment = Fin 0\<rparr>],
            final_portfolio = [\<lparr>symbol = ''A'', quantity = 10\<rparr>],
            cash_remaining = Fin 0\<rparr>"
  by code_simp

end
